theory Spec2Isabelle
  imports Main "HOL-Library.Word" "HOL-Library.AList"
begin

section \<open>A JSON-RPC 2.0 client over HTTP: the embedding of client.go\<close>

text \<open>
  The package has one operation, \<open>Client.Call\<close>, and a handful of helpers. It sits on
  four libraries that are not part of the repository: \<open>encoding/json\<close>, \<open>net/http\<close>,
  \<open>github.com/google/uuid\<close> and \<open>io\<close>. What those libraries compute is taken as a
  parameter (the record \<open>env\<close> below), but for what \<open>json.Marshal\<close> makes of the
  \<open>request\<close> struct and of a Go string, which is written out; what client.go does with
  their answers is translated function by function. Go's \<open>(value, error)\<close> returns are sums with the
  error on the left, a pointer that may be nil is an \<open>option\<close>, and the calls that
  touch the outside world are logged, in order, in a trace.
\<close>

subsection \<open>JSON documents\<close>

text \<open>
  A JSON text as a tree. Numbers keep their literal, so no floating point is involved.
  The members of an object are kept in order, as \<open>json.Marshal\<close> writes the fields of a
  struct in declaration order.
\<close>

datatype json =
    JNull
  | JBool bool
  | JNumber string
  | JString string
  | JArray "json list"
  | JObject "(string \<times> json) list"

fun member :: "json \<Rightarrow> string \<Rightarrow> json option" where
  "member (JObject ms) k = map_of ms k"
| "member _ k = None"

subsection \<open>Errors\<close>

text \<open>
  \<open>cause\<close> is an error value made by one of the libraries, known by its text.
  \<open>ErrorCode\<close> is Go's \<open>int\<close>; no arithmetic is done on it, so it is an integer here.
\<close>

type_synonym cause = string

type_synonym ErrorCode = int

definition ParseError :: ErrorCode where
  "ParseError = - 32700"

definition InvalidRequest :: ErrorCode where
  "InvalidRequest = - 32600"

definition MethodNotFound :: ErrorCode where
  "MethodNotFound = - 32601"

definition InvalidParams :: ErrorCode where
  "InvalidParams = - 32602"

definition InternalError :: ErrorCode where
  "InternalError = - 32603"

text \<open>
  \<open>ResponseError\<close>: \<open>Data\<close> is an \<open>interface{}\<close> filled by the decoder, so it holds a
  generic JSON value (\<open>JNull\<close> for nil).
\<close>

record ResponseError =
  Code :: ErrorCode
  Message :: string
  Data :: json

text \<open>
  The values of Go's \<open>error\<close> interface that \<open>Call\<close> can return:
  \<open>errors.New(s)\<close> and \<open>fmt.Errorf\<close> without \<open>%w\<close> give a plain message,
  \<open>ErrorString s\<close>; \<open>fmt.Errorf("<msg>: %w", err)\<close> wraps the library error \<open>err\<close>
  under a message, \<open>WrapError msg err\<close>; a \<open>*ResponseError\<close> is returned as it is.
\<close>

datatype error =
    ErrorString string
  | WrapError string cause
  | RPCError ResponseError

definition errors_New :: "string \<Rightarrow> error" where
  "errors_New s = ErrorString s"

subsection \<open>Identifiers, envelopes, HTTP messages\<close>

text \<open>\<open>uuid.UUID\<close> is an array of 16 bytes, compared with \<open>==\<close>.\<close>

type_synonym uuid = "128 word"

definition Version :: string where
  "Version = ''2.0''"

text \<open>
  \<open>Params\<close> is an \<open>interface{}\<close>: \<open>None\<close> is the nil interface, \<open>Some p\<close> any other
  value (a typed nil pointer included).
\<close>

record 'p request =
  req_JSONRPC :: string
  req_Method :: string
  req_Params :: "'p option"
  req_ID :: uuid

text \<open>\<open>Result\<close> is a \<open>json.RawMessage\<close>, the bytes of the payload; \<open>Error\<close> is a pointer.\<close>

record response =
  JSONRPC :: string
  Result :: string
  Error :: "ResponseError option"
  ID :: uuid

text \<open>
  \<open>http.Header\<close> is a Go map from keys to lists of values. It is an association list
  with distinct keys; where the code ranges over a header, the list order stands for
  the order in which Go happens to visit the map.
\<close>

type_synonym http_Header = "(string \<times> string list) list"

text \<open>An \<open>*http.Client\<close> is known by its identity.\<close>

type_synonym http_Client = nat

record 'c http_Request =
  Ctx :: 'c
  Method :: string
  URL :: string
  Header :: http_Header
  Body :: json

record http_Response =
  StatusCode :: int
  Status :: string
  res_Body :: string

record Client =
  HTTPClient :: "http_Client option"

record callOptions =
  opt_Header :: "http_Header option"

subsection \<open>The libraries\<close>

text \<open>
  What the libraries answer during one call:
  \<^item> \<open>uuid_New\<close>: the identifier \<open>uuid.New()\<close> draws;
  \<^item> \<open>uuid_String\<close>: its text form, which is how \<open>json.Marshal\<close> writes a \<open>uuid.UUID\<close>;
  \<^item> \<open>json_Marshal\<close>: \<open>json.Marshal\<close> on a non-nil params value;
  \<^item> \<open>NewRequest_error\<close>: the error of \<open>http.NewRequestWithContext\<close> for a context and
    a URL, if it reports one;
  \<^item> \<open>CanonicalHeaderKey\<close>: the canonical form \<open>Header.Add\<close> gives a key;
  \<^item> \<open>DefaultClient\<close>: \<open>http.DefaultClient\<close>;
  \<^item> \<open>Client_Do\<close>: \<open>(*http.Client).Do\<close>, the round trip;
  \<^item> \<open>Decode_response\<close>: \<open>json.NewDecoder(body).Decode\<close> into a \<open>response\<close>;
  \<^item> \<open>json_Unmarshal\<close>: \<open>json.Unmarshal\<close> of a payload into the caller's value, which
    gives the error, if any, and the value as it has left it.

  Every one of these calls returns: a library call that panics (\<open>uuid.New\<close> does when
  the system has no random bytes to give) or a transport that never answers is not a
  run that the record describes.
\<close>

record ('c, 'p, 'o) env =
  uuid_New :: uuid
  uuid_String :: "uuid \<Rightarrow> string"
  json_Marshal :: "'p \<Rightarrow> cause + json"
  NewRequest_error :: "'c \<Rightarrow> string \<Rightarrow> cause option"
  CanonicalHeaderKey :: "string \<Rightarrow> string"
  DefaultClient :: http_Client
  Client_Do :: "http_Client \<Rightarrow> 'c http_Request \<Rightarrow> cause + http_Response"
  Decode_response :: "string \<Rightarrow> cause + response"
  json_Unmarshal :: "string \<Rightarrow> 'o \<Rightarrow> cause option \<times> 'o"

text \<open>The calls that reach outside the process, logged in the order they are made.\<close>

datatype 'c event =
    Ev_NewRequest string
  | Ev_Do http_Client "'c http_Request"
  | Ev_Decode
  | Ev_Unmarshal string
  | Ev_Discard
  | Ev_Close

text \<open>What a call leaves behind: the error returned, the caller's value, the trace.\<close>

record ('c, 'o) outcome =
  err :: "error option"
  out :: 'o
  trace :: "'c event list"

subsection \<open>Strings in a JSON text\<close>

text \<open>
  A Go string is any sequence of bytes; a JSON string is valid UTF-8. \<open>json.Marshal\<close>
  writes a string rune by rune: it asks \<open>utf8.DecodeRuneInString\<close> for the rune at the
  head, copies its bytes when there is one, and writes U+FFFD in the place of a byte
  that starts none. (The escapes it also writes, for quotes, control characters and
  HTML, stand for the same characters and change nothing in the string a reader
  gets.)

  \<open>utf8_rune_len\<close> is the size that \<open>utf8.DecodeRuneInString\<close> finds for the rune at
  the head of the bytes, \<open>None\<close> where it answers \<open>(RuneError, 1)\<close>: the head byte
  starts no rune, or the bytes after it are not the continuation it asks for. The
  bounds are those of the table of package \<open>unicode/utf8\<close> (no overlong form, no
  surrogate, nothing above U+10FFFF).
\<close>

definition continuation :: "nat \<Rightarrow> bool" where
  "continuation b = (128 \<le> b \<and> b \<le> 191)"

fun utf8_rune_len :: "nat list \<Rightarrow> nat option" where
  "utf8_rune_len [] = None"
| "utf8_rune_len (s0 # rest) =
     (if s0 < 128 then Some 1
      else if s0 < 194 then None
      else if s0 < 224 then
        (case rest of
           s1 # _ \<Rightarrow> if continuation s1 then Some 2 else None
         | _ \<Rightarrow> None)
      else if s0 < 240 then
        (case rest of
           s1 # s2 # _ \<Rightarrow>
             if (if s0 = 224 then 160 else 128) \<le> s1 \<and> s1 \<le> (if s0 = 237 then 159 else 191)
                \<and> continuation s2
             then Some 3 else None
         | _ \<Rightarrow> None)
      else if s0 < 245 then
        (case rest of
           s1 # s2 # s3 # _ \<Rightarrow>
             if (if s0 = 240 then 144 else 128) \<le> s1 \<and> s1 \<le> (if s0 = 244 then 143 else 191)
                \<and> continuation s2 \<and> continuation s3
             then Some 4 else None
         | _ \<Rightarrow> None)
      else None)"

text \<open>U+FFFD in UTF-8.\<close>

definition RuneError :: string where
  "RuneError = [CHR 0xEF, CHR 0xBF, CHR 0xBD]"

text \<open>
  The loop of \<open>json.Marshal\<close> over a string. The first argument counts the bytes of
  the current rune that are still to be copied; at 0 the next rune is decoded.
\<close>

fun utf8_coerce :: "nat \<Rightarrow> string \<Rightarrow> string" where
  "utf8_coerce k [] = []"
| "utf8_coerce 0 (c # cs) =
     (case utf8_rune_len (map of_char (c # cs)) of
        None \<Rightarrow> RuneError @ utf8_coerce 0 cs
      | Some n \<Rightarrow> c # utf8_coerce (n - 1) cs)"
| "utf8_coerce (Suc k) (c # cs) = c # utf8_coerce k cs"

definition json_string :: "string \<Rightarrow> string" where
  "json_string s = utf8_coerce 0 s"

text \<open>\<open>utf8.ValidString\<close>: every byte belongs to a rune.\<close>

fun utf8_valid :: "nat \<Rightarrow> string \<Rightarrow> bool" where
  "utf8_valid k [] = True"
| "utf8_valid 0 (c # cs) =
     (case utf8_rune_len (map of_char (c # cs)) of
        None \<Rightarrow> False
      | Some n \<Rightarrow> utf8_valid (n - 1) cs)"
| "utf8_valid (Suc k) (c # cs) = utf8_valid k cs"

definition ValidString :: "string \<Rightarrow> bool" where
  "ValidString s = utf8_valid 0 s"

subsection \<open>requestBody\<close>

text \<open>
  \<open>json.Marshal\<close> on the \<open>request\<close> struct, as its tags direct: the members
  \<open>jsonrpc\<close>, \<open>method\<close>, \<open>params\<close>, \<open>id\<close> in this order, \<open>params\<close> with \<open>omitempty\<close>
  (left out when the interface is nil), the identifier as its text, and every string
  as \<open>json.Marshal\<close> writes strings.
\<close>

definition Marshal_request :: "('c, 'p, 'o) env \<Rightarrow> 'p request \<Rightarrow> cause + json" where
  "Marshal_request env r =
     (case req_Params r of
        None \<Rightarrow>
          Inr (JObject [(''jsonrpc'', JString (json_string (req_JSONRPC r))),
                        (''method'', JString (json_string (req_Method r))),
                        (''id'', JString (json_string (uuid_String env (req_ID r))))])
      | Some p \<Rightarrow>
          (case json_Marshal env p of
             Inl c \<Rightarrow> Inl c
           | Inr j \<Rightarrow>
               Inr (JObject [(''jsonrpc'', JString (json_string (req_JSONRPC r))),
                             (''method'', JString (json_string (req_Method r))),
                             (''params'', j),
                             (''id'', JString (json_string (uuid_String env (req_ID r))))])))"

definition requestBody :: "('c, 'p, 'o) env \<Rightarrow> string \<Rightarrow> 'p option \<Rightarrow> error + (uuid \<times> json)" where
  "requestBody env method params =
     (let r = \<lparr>req_JSONRPC = Version, req_Method = method, req_Params = params,
                req_ID = uuid_New env\<rparr>
      in case Marshal_request env r of
           Inl c \<Rightarrow> Inl (WrapError ''failed to marshal request'' c)
         | Inr b \<Rightarrow> Inr (req_ID r, b))"

subsection \<open>Options\<close>

text \<open>
  An \<open>Option\<close> is an \<open>optionFunc\<close>, a function that mutates the options it is given;
  \<open>apply\<close> calls it. The method \<open>apply\<close> is not exported, so \<open>WithHeader\<close> is the
  only way for a caller to make one; its argument is a Go map, nil or not.
  \<open>apply_options\<close> is the loop of \<open>Call\<close> over \<open>opts\<close>. A nil interface in the place
  of an \<open>Option\<close>, on which \<open>apply\<close> would panic, is not a value of this type: the
  options of the model are the ones that \<open>WithHeader\<close> returns.
\<close>

type_synonym optionFunc = "callOptions \<Rightarrow> callOptions"

definition apply_opt :: "optionFunc \<Rightarrow> callOptions \<Rightarrow> callOptions" where
  "apply_opt f opts = f opts"

definition WithHeader :: "http_Header option \<Rightarrow> optionFunc" where
  "WithHeader header = (\<lambda>opts. opts\<lparr>opt_Header := header\<rparr>)"

fun apply_options :: "optionFunc list \<Rightarrow> callOptions \<Rightarrow> callOptions" where
  "apply_options [] callOpts = callOpts"
| "apply_options (opt # opts) callOpts = apply_options opts (apply_opt opt callOpts)"

subsection \<open>newRequest\<close>

text \<open>\<open>h[k]\<close> on a Go map: the nil slice when the key is absent.\<close>

definition Header_Values :: "http_Header \<Rightarrow> string \<Rightarrow> string list" where
  "Header_Values h k = (case map_of h k of None \<Rightarrow> [] | Some vs \<Rightarrow> vs)"

text \<open>\<open>Header.Add\<close>: appends the value to the values of the canonical key.\<close>

definition Header_Add :: "('c, 'p, 'o) env \<Rightarrow> http_Header \<Rightarrow> string \<Rightarrow> string \<Rightarrow> http_Header" where
  "Header_Add env h key v =
     (let k = CanonicalHeaderKey env key in AList.update k (Header_Values h k @ [v]) h)"

fun add_values :: "('c, 'p, 'o) env \<Rightarrow> http_Header \<Rightarrow> string \<Rightarrow> string list \<Rightarrow> http_Header" where
  "add_values env h key [] = h"
| "add_values env h key (v # vs) = add_values env (Header_Add env h key v) key vs"

fun add_headers :: "('c, 'p, 'o) env \<Rightarrow> http_Header \<Rightarrow> http_Header \<Rightarrow> http_Header" where
  "add_headers env h [] = h"
| "add_headers env h ((key, vs) # rest) = add_headers env (add_values env h key vs) rest"

text \<open>\<open>http.NewRequestWithContext\<close>: a request with an empty header, or an error.\<close>

definition http_NewRequestWithContext ::
  "('c, 'p, 'o) env \<Rightarrow> 'c \<Rightarrow> string \<Rightarrow> string \<Rightarrow> json \<Rightarrow> cause + 'c http_Request" where
  "http_NewRequestWithContext env ctx m url body =
     (case NewRequest_error env ctx url of
        Some c \<Rightarrow> Inl c
      | None \<Rightarrow> Inr \<lparr>Ctx = ctx, Method = m, URL = url, Header = [], Body = body\<rparr>)"

definition newRequest ::
  "('c, 'p, 'o) env \<Rightarrow> 'c \<Rightarrow> string \<Rightarrow> json \<Rightarrow> callOptions \<Rightarrow> error + 'c http_Request" where
  "newRequest env ctx url body opts =
     (case http_NewRequestWithContext env ctx ''POST'' url body of
        Inl c \<Rightarrow> Inl (WrapError ''failed to create new HTTP request'' c)
      | Inr req \<Rightarrow>
          (let h = Header_Add env (Header req) ''Content-Type'' ''text/json''
           in case opt_Header opts of
                None \<Rightarrow> Inr (req\<lparr>Header := h\<rparr>)
              | Some hdr \<Rightarrow> Inr (req\<lparr>Header := add_headers env h hdr\<rparr>)))"

subsection \<open>httpClient\<close>

definition httpClient :: "('c, 'p, 'o) env \<Rightarrow> Client \<Rightarrow> http_Client" where
  "httpClient env client =
     (case HTTPClient client of None \<Rightarrow> DefaultClient env | Some c \<Rightarrow> c)"

subsection \<open>Call\<close>

text \<open>
  The part of \<open>Call\<close> that runs once the response is there, under the two \<open>defer\<close>s:
  the status check, the decoding of the envelope, the error check, the identifier
  check and the decoding of the result. It gives the error, the caller's value and the
  calls it has made.
\<close>

definition handle_response ::
  "('c, 'p, 'o) env \<Rightarrow> uuid \<Rightarrow> http_Response \<Rightarrow> 'o \<Rightarrow> error option \<times> 'o \<times> 'c event list" where
  "handle_response env id' res result =
     (if StatusCode res \<noteq> 200
      then (Some (ErrorString (''server does not respond 200 OK: '' @ Status res)), result, [])
      else
        (case Decode_response env (res_Body res) of
           Inl c \<Rightarrow> (Some (WrapError ''failed to decode response JSON'' c), result, [Ev_Decode])
         | Inr rpcRes \<Rightarrow>
             (case Error rpcRes of
                Some e \<Rightarrow> (Some (RPCError e), result, [Ev_Decode])
              | None \<Rightarrow>
                  if ID rpcRes \<noteq> id'
                  then (Some (errors_New ''response ID is not matched to request''), result,
                        [Ev_Decode])
                  else
                    (case json_Unmarshal env (Result rpcRes) result of
                       (Some c, result') \<Rightarrow>
                         (Some (WrapError ''failed to decode result JSON'' c), result',
                          [Ev_Decode, Ev_Unmarshal (Result rpcRes)])
                     | (None, result') \<Rightarrow>
                         (None, result', [Ev_Decode, Ev_Unmarshal (Result rpcRes)])))))"

text \<open>
  \<open>Call\<close>. The deferred calls run when the function returns, the last one deferred
  first: the body is drained, then closed.
\<close>

definition Call ::
  "('c, 'p, 'o) env \<Rightarrow> Client \<Rightarrow> 'c \<Rightarrow> string \<Rightarrow> string \<Rightarrow> 'p option \<Rightarrow> 'o \<Rightarrow> optionFunc list
     \<Rightarrow> ('c, 'o) outcome" where
  "Call env client ctx url method params result opts =
     (if method = ''''
      then \<lparr>err = Some (errors_New ''method is empty''), out = result, trace = []\<rparr>
      else
        (let callOpts = apply_options opts \<lparr>opt_Header = None\<rparr>
         in case requestBody env method params of
              Inl e \<Rightarrow> \<lparr>err = Some e, out = result, trace = []\<rparr>
            | Inr (id', body) \<Rightarrow>
                (case newRequest env ctx url body callOpts of
                   Inl e \<Rightarrow> \<lparr>err = Some e, out = result, trace = [Ev_NewRequest url]\<rparr>
                 | Inr req \<Rightarrow>
                     (case Client_Do env (httpClient env client) req of
                        Inl c \<Rightarrow>
                          \<lparr>err = Some (WrapError ''failed to post request'' c), out = result,
                           trace = [Ev_NewRequest url, Ev_Do (httpClient env client) req]\<rparr>
                      | Inr res \<Rightarrow>
                          (case handle_response env id' res result of
                             (e, result', evs) \<Rightarrow>
                               \<lparr>err = e, out = result',
                                trace = [Ev_NewRequest url, Ev_Do (httpClient env client) req]
                                        @ evs @ [Ev_Discard, Ev_Close]\<rparr>)))))"

subsection \<open>A stub server\<close>

text \<open>
  A concrete set of library answers, for running \<open>Call\<close>: the identifier drawn is 7,
  a params value is a JSON document that marshals to itself, every URL is accepted,
  header keys are already canonical, the default client is number 0, every round trip
  is answered by the response \<open>res\<close>, whose body decodes to the envelope \<open>rpcRes\<close>, and
  the caller's value is an \<open>int\<close> variable.
\<close>

definition stub_Unmarshal :: "string \<Rightarrow> int \<Rightarrow> cause option \<times> int" where
  "stub_Unmarshal raw v =
     (if raw = ''42'' then (None, 42)
      else if raw = ''null'' then (None, v)
      else (Some ''json: cannot unmarshal into Go value of type int'', v))"

definition stub_env :: "http_Response \<Rightarrow> response \<Rightarrow> (unit, json, int) env" where
  "stub_env res rpcRes =
     \<lparr>uuid_New = 7,
      uuid_String = (\<lambda>u. ''00000000-0000-0000-0000-000000000007''),
      json_Marshal = Inr,
      NewRequest_error = (\<lambda>ctx url. None),
      CanonicalHeaderKey = (\<lambda>k. k),
      DefaultClient = 0,
      Client_Do = (\<lambda>c req. Inr res),
      Decode_response = (\<lambda>b. Inr rpcRes),
      json_Unmarshal = stub_Unmarshal\<rparr>"

definition ok_response :: http_Response where
  "ok_response = \<lparr>StatusCode = 200, Status = ''200 OK'', res_Body = []\<rparr>"

definition unavailable_response :: http_Response where
  "unavailable_response =
     \<lparr>StatusCode = 503, Status = ''503 Service Unavailable'', res_Body = []\<rparr>"

definition created_response :: http_Response where
  "created_response = \<lparr>StatusCode = 201, Status = ''201 Created'', res_Body = []\<rparr>"

definition result_envelope :: "string \<Rightarrow> uuid \<Rightarrow> response" where
  "result_envelope raw i = \<lparr>JSONRPC = ''2.0'', Result = raw, Error = None, ID = i\<rparr>"

definition method_not_found :: ResponseError where
  "method_not_found = \<lparr>Code = MethodNotFound, Message = ''Method not found'', Data = JNull\<rparr>"

definition error_envelope :: "uuid \<Rightarrow> response" where
  "error_envelope i =
     \<lparr>JSONRPC = ''2.0'', Result = ''null'', Error = Some method_not_found, ID = i\<rparr>"

definition ping_body :: json where
  "ping_body =
     JObject [(''jsonrpc'', JString ''2.0''), (''method'', JString ''ping''),
              (''id'', JString ''00000000-0000-0000-0000-000000000007'')]"

definition ping_request :: "unit http_Request" where
  "ping_request =
     \<lparr>Ctx = (), Method = ''POST'', URL = ''https://x/rpc'',
      Header = [(''Content-Type'', [''text/json''])], Body = ping_body\<rparr>"

text \<open>
  Two options for the stub: the second header set names \<open>Content-Type\<close> itself, and
  the request that goes out when both are passed, in this order.
\<close>

definition custom_options :: "optionFunc list" where
  "custom_options =
     [WithHeader (Some [(''X-Early'', [''1''])]),
      WithHeader (Some [(''X-Custom-Header'', [''XXXX'']),
                        (''Content-Type'', [''application/json''])])]"

definition custom_request :: "unit http_Request" where
  "custom_request =
     \<lparr>Ctx = (), Method = ''POST'', URL = ''https://x/rpc'',
      Header = [(''Content-Type'', [''text/json'', ''application/json'']),
                (''X-Custom-Header'', [''XXXX''])],
      Body = ping_body\<rparr>"

definition empty_params_body :: json where
  "empty_params_body =
     JObject [(''jsonrpc'', JString ''2.0''), (''method'', JString ''ping''),
              (''params'', JObject []),
              (''id'', JString ''00000000-0000-0000-0000-000000000007'')]"

text \<open>
  Two servers that tell their callers apart. Behind the first, client number 3 is out
  of service and every other client, the default one included, answers 200. The
  second answers 200 only to a request whose header is exactly that of
  \<open>custom_request\<close>, and 400 to any other.
\<close>

definition bad_request_response :: http_Response where
  "bad_request_response = \<lparr>StatusCode = 400, Status = ''400 Bad Request'', res_Body = []\<rparr>"

definition routed_Do :: "http_Client \<Rightarrow> unit http_Request \<Rightarrow> cause + http_Response" where
  "routed_Do c req = (if c = 3 then Inr unavailable_response else Inr ok_response)"

definition routed_env :: "(unit, json, int) env" where
  "routed_env = (stub_env ok_response (result_envelope ''42'' 7))\<lparr>Client_Do := routed_Do\<rparr>"

definition header_Do :: "http_Client \<Rightarrow> unit http_Request \<Rightarrow> cause + http_Response" where
  "header_Do c req =
     (if Header req = Header custom_request then Inr ok_response
      else Inr bad_request_response)"

definition header_env :: "(unit, json, int) env" where
  "header_env = (stub_env ok_response (result_envelope ''42'' 7))\<lparr>Client_Do := header_Do\<rparr>"

text \<open>A method name of one byte that is no UTF-8, and what becomes of it.\<close>

definition bad_method :: string where
  "bad_method = [CHR 0xFF]"

definition bad_method_body :: json where
  "bad_method_body =
     JObject [(''jsonrpc'', JString ''2.0''),
              (''method'', JString [CHR 0xEF, CHR 0xBF, CHR 0xBD]),
              (''id'', JString ''00000000-0000-0000-0000-000000000007'')]"

section \<open>Properties\<close>

subsection \<open>Strings\<close>

lemma utf8_valid_coerce: "utf8_valid k s \<Longrightarrow> utf8_coerce k s = s"
  by (induction k s rule: utf8_coerce.induct)
    (auto split: option.splits simp del: utf8_rune_len.simps)

text \<open>A string that is valid UTF-8 is written as it is.\<close>

lemma json_string_valid: "ValidString s \<Longrightarrow> json_string s = s"
  by (simp add: ValidString_def json_string_def utf8_valid_coerce)

subsection \<open>Headers and options\<close>

lemma Header_Values_Add:
  "Header_Values (Header_Add env h key v) k =
     (if k = CanonicalHeaderKey env key then Header_Values h k @ [v] else Header_Values h k)"
  by (simp add: Header_Add_def Header_Values_def Let_def update_conv')

lemma Header_Values_add_values:
  "Header_Values (add_values env h key vs) k =
     (if k = CanonicalHeaderKey env key then Header_Values h k @ vs else Header_Values h k)"
  by (induction vs arbitrary: h) (simp_all add: Header_Values_Add)

text \<open>Adding a header set only appends: what a key held before stays in front.\<close>

lemma add_headers_extends:
  "\<exists>more. Header_Values (add_headers env h hdr) k = Header_Values h k @ more"
proof (induction hdr arbitrary: h)
  case Nil
  show ?case by simp
next
  case (Cons kv hdr)
  obtain key vs where kv: "kv = (key, vs)" by (cases kv)
  from Cons [of "add_values env h key vs"] obtain more where
    "Header_Values (add_headers env (add_values env h key vs) hdr) k
       = Header_Values (add_values env h key vs) k @ more" ..
  then show ?case by (simp add: kv Header_Values_add_values)
qed

lemma add_headers_contains:
  assumes "(key, vs) \<in> set hdr" and "v \<in> set vs"
  shows "v \<in> set (Header_Values (add_headers env h hdr) (CanonicalHeaderKey env key))"
  using assms
proof (induction hdr arbitrary: h)
  case Nil
  then show ?case by simp
next
  case (Cons kv hdr)
  obtain key' vs' where kv: "kv = (key', vs')" by (cases kv)
  show ?case
  proof (cases "(key, vs) \<in> set hdr")
    case True
    with Cons show ?thesis by (simp add: kv)
  next
    case False
    with Cons.prems have same: "key' = key" "vs' = vs" by (auto simp: kv)
    obtain more where
      "Header_Values (add_headers env (add_values env h key vs) hdr) (CanonicalHeaderKey env key)
         = Header_Values (add_values env h key vs) (CanonicalHeaderKey env key) @ more"
      using add_headers_extends by blast
    with Cons.prems(2) show ?thesis by (simp add: kv same Header_Values_add_values)
  qed
qed

lemma apply_options_append:
  "apply_options (xs @ ys) callOpts = apply_options ys (apply_options xs callOpts)"
  by (induction xs arbitrary: callOpts) simp_all

lemma apply_options_WithHeader:
  "opt_Header (apply_options (map WithHeader hs) callOpts)
     = (if hs = [] then opt_Header callOpts else last hs)"
  by (induction hs arbitrary: callOpts) (simp_all add: apply_opt_def WithHeader_def)

lemma newRequest_Header:
  assumes "newRequest env ctx url body callOpts = Inr req"
  shows "Header req =
           add_headers env [(CanonicalHeaderKey env ''Content-Type'', [''text/json''])]
             (case opt_Header callOpts of None \<Rightarrow> [] | Some hdr \<Rightarrow> hdr)"
  using assms
  by (auto simp: newRequest_def http_NewRequestWithContext_def Header_Add_def Header_Values_def
      Let_def split: option.splits sum.splits)

lemma newRequest_fields:
  assumes "newRequest env ctx url body callOpts = Inr req"
  shows "Body req = body \<and> URL req = url \<and> Method req = ''POST'' \<and> Ctx req = ctx"
  using assms
  by (auto simp: newRequest_def http_NewRequestWithContext_def Let_def
      split: option.splits sum.splits)

subsection \<open>The round trip\<close>

lemma handle_response_no_Do:
  assumes "handle_response env i res result = (e, result', evs)"
  shows "Ev_Do c req \<notin> set evs"
  using assms
  by (auto simp: handle_response_def split: if_splits sum.splits option.splits prod.splits)

text \<open>
  A request that a call has sent went through the client's transport, carries the
  envelope of \<open>requestBody\<close> and was built by \<open>newRequest\<close> from the options.
\<close>

lemma Call_Do_request:
  assumes "Ev_Do c req \<in> set (trace (Call env client ctx url method params result opts))"
  shows "c = httpClient env client
         \<and> (\<exists>id'. requestBody env method params = Inr (id', Body req))
         \<and> newRequest env ctx url (Body req) (apply_options opts \<lparr>opt_Header = None\<rparr>) = Inr req"
proof -
  from assms obtain id' body where
    rb: "requestBody env method params = Inr (id', body)" and
    nr: "newRequest env ctx url body (apply_options opts \<lparr>opt_Header = None\<rparr>) = Inr req" and
    c: "c = httpClient env client"
    by (auto simp: Call_def Let_def dest: handle_response_no_Do
        split: if_splits sum.splits prod.splits)
  from nr have "Body req = body"
    by (rule newRequest_fields [THEN conjunct1])
  with rb nr c show ?thesis by auto
qed

text \<open>
  Once the transport has returned a response, whatever its status and whatever the
  body holds, the last two calls of \<open>Call\<close> drain the body and close it.
\<close>

lemma Call_body_released:
  assumes "method \<noteq> []"
    and "requestBody env method params = Inr (id', body)"
    and "newRequest env ctx url body (apply_options opts \<lparr>opt_Header = None\<rparr>) = Inr req"
    and "Client_Do env (httpClient env client) req = Inr res"
  shows "\<exists>evs. trace (Call env client ctx url method params result opts)
           = evs @ [Ev_Discard, Ev_Close]"
  using assms by (simp add: Call_def split: prod.splits)

subsection \<open>What a call owes to its transport\<close>

lemma Header_Add_Do:
  "Header_Add (env\<lparr>Client_Do := f\<rparr>) h key v = Header_Add env h key v"
  by (simp add: Header_Add_def)

lemma add_values_Do:
  "add_values (env\<lparr>Client_Do := f\<rparr>) h key vs = add_values env h key vs"
  by (induction vs arbitrary: h) (simp_all add: Header_Add_Do)

lemma add_headers_Do:
  "add_headers (env\<lparr>Client_Do := f\<rparr>) h hdr = add_headers env h hdr"
  by (induction hdr arbitrary: h) (auto simp: add_values_Do)

lemma newRequest_Do:
  "newRequest (env\<lparr>Client_Do := f\<rparr>) ctx url body callOpts = newRequest env ctx url body callOpts"
  by (simp add: newRequest_def http_NewRequestWithContext_def Let_def Header_Add_Do
      add_headers_Do split: option.splits sum.splits)

lemma requestBody_Do:
  "requestBody (env\<lparr>Client_Do := f\<rparr>) m params = requestBody env m params"
  by (simp add: requestBody_def Marshal_request_def Let_def split: option.splits sum.splits)

lemma httpClient_Do:
  "httpClient (env\<lparr>Client_Do := f\<rparr>) client = httpClient env client"
  by (simp add: httpClient_def split: option.splits)

lemma handle_response_Do:
  "handle_response (env\<lparr>Client_Do := f\<rparr>) i res result = handle_response env i res result"
  by (simp add: handle_response_def split: option.splits sum.splits prod.splits)

text \<open>
  Once the envelope is serialized and the request built, the outcome of a call is what
  the client's transport answers to that request, and what \<open>Call\<close> makes of the answer.
\<close>

lemmas Client_Do_simps =
  newRequest_Do requestBody_Do httpClient_Do handle_response_Do

lemma Call_round_trip:
  assumes "m \<noteq> []"
    and "requestBody env m params = Inr (id', body)"
    and "newRequest env ctx url body (apply_options opts \<lparr>opt_Header = None\<rparr>) = Inr req"
  shows "Call env client ctx url m params result opts
           = (case Client_Do env (httpClient env client) req of
                Inl c \<Rightarrow>
                  \<lparr>err = Some (WrapError ''failed to post request'' c), out = result,
                   trace = [Ev_NewRequest url, Ev_Do (httpClient env client) req]\<rparr>
              | Inr res \<Rightarrow>
                  (case handle_response env id' res result of
                     (e, result', evs) \<Rightarrow>
                       \<lparr>err = e, out = result',
                        trace = [Ev_NewRequest url, Ev_Do (httpClient env client) req]
                                @ evs @ [Ev_Discard, Ev_Close]\<rparr>))"
  using assms by (simp add: Call_def)

text \<open>
  A call asks the transports one question only: what the client's transport answers to
  the request it has built. Two worlds that agree on that answer give the same outcome.
\<close>

lemma Call_one_question:
  assumes "\<And>id' body req.
      requestBody env m params = Inr (id', body) \<Longrightarrow>
      newRequest env ctx url body (apply_options opts \<lparr>opt_Header = None\<rparr>) = Inr req \<Longrightarrow>
      f (httpClient env client) req = Client_Do env (httpClient env client) req"
  shows "Call (env\<lparr>Client_Do := f\<rparr>) client ctx url m params result opts
           = Call env client ctx url m params result opts"
proof (cases "m = []")
  case True
  then show ?thesis by (simp add: Call_def)
next
  case False
  show ?thesis
  proof (cases "requestBody env m params")
    case (Inl e)
    with False show ?thesis by (simp add: Call_def Client_Do_simps)
  next
    case (Inr p)
    obtain id' body where p: "p = (id', body)" by (cases p)
    show ?thesis
    proof (cases "newRequest env ctx url body (apply_options opts \<lparr>opt_Header = None\<rparr>)")
      case (Inl e)
      with False Inr p show ?thesis by (simp add: Call_def Client_Do_simps)
    next
      case nr: (Inr req)
      from assms Inr p nr
      have "f (httpClient env client) req = Client_Do env (httpClient env client) req"
        by simp
      with False Inr p nr show ?thesis
        by (simp add: Call_def Client_Do_simps split: sum.splits prod.splits)
    qed
  qed
qed

lemma newRequest_built:
  assumes "NewRequest_error env ctx url = None"
  shows "newRequest env ctx url body callOpts
           = Inr \<lparr>Ctx = ctx, Method = ''POST'', URL = url,
                  Header = add_headers env
                             [(CanonicalHeaderKey env ''Content-Type'', [''text/json''])]
                             (case opt_Header callOpts of None \<Rightarrow> [] | Some hdr \<Rightarrow> hdr),
                  Body = body\<rparr>"
  using assms
  by (simp add: newRequest_def http_NewRequestWithContext_def Header_Add_def Header_Values_def
      split: option.splits)

subsection \<open>The stub server at work\<close>

lemma json_string_stub:
  "json_string ''2.0'' = ''2.0''"
  "json_string ''ping'' = ''ping''"
  "json_string ''00000000-0000-0000-0000-000000000007'' = ''00000000-0000-0000-0000-000000000007''"
  by code_simp+

lemma stub_requestBody:
  "requestBody (stub_env res rpc) ''ping'' None = Inr (7, ping_body)"
  by (simp add: requestBody_def Marshal_request_def stub_env_def ping_body_def Version_def
      json_string_stub)

lemma stub_newRequest:
  "newRequest (stub_env res rpc) () ''https://x/rpc'' ping_body
     (apply_options [] \<lparr>opt_Header = None\<rparr>) = Inr ping_request"
  by (simp add: newRequest_def http_NewRequestWithContext_def Header_Add_def Header_Values_def
      stub_env_def ping_request_def)

lemma stub_newRequest':
  "newRequest (stub_env res rpc) () ''https://x/rpc'' ping_body \<lparr>opt_Header = None\<rparr>
     = Inr ping_request"
  using stub_newRequest [of res rpc] by simp

lemma stub_Do: "Client_Do (stub_env res rpc) c req = Inr res"
  by (simp add: stub_env_def)

lemma stub_Decode: "Decode_response (stub_env res rpc) b = Inr rpc"
  by (simp add: stub_env_def)

lemma stub_httpClient:
  "httpClient (stub_env res rpc) \<lparr>HTTPClient = None\<rparr> = 0"
  "httpClient (stub_env res rpc) \<lparr>HTTPClient = Some c\<rparr> = c"
  by (simp_all add: httpClient_def stub_env_def)

lemma ping_nonempty: "''ping'' \<noteq> []"
  by simp

lemma stub_Call:
  "Call (stub_env res rpc) client () ''https://x/rpc'' ''ping'' None v []
     = (case handle_response (stub_env res rpc) 7 res v of
          (e, v', evs) \<Rightarrow>
            \<lparr>err = e, out = v',
             trace = [Ev_NewRequest ''https://x/rpc'',
                      Ev_Do (httpClient (stub_env res rpc) client) ping_request]
                     @ evs @ [Ev_Discard, Ev_Close]\<rparr>)"
  by (simp add: Call_def stub_requestBody stub_newRequest' stub_Do)

lemma routed_requestBody: "requestBody routed_env ''ping'' None = Inr (7, ping_body)"
  by (simp add: routed_env_def requestBody_Do stub_requestBody)

lemma routed_newRequest:
  "newRequest routed_env () ''https://x/rpc'' ping_body (apply_options [] \<lparr>opt_Header = None\<rparr>)
     = Inr ping_request"
  using stub_newRequest by (simp add: routed_env_def newRequest_Do)

lemma routed_handle_ok:
  "handle_response routed_env 7 ok_response 0 = (None, 42, [Ev_Decode, Ev_Unmarshal ''42''])"
  by (simp add: routed_env_def handle_response_Do handle_response_def stub_Decode
      ok_response_def result_envelope_def)
    (simp add: stub_env_def stub_Unmarshal_def)

lemma routed_handle_unavailable:
  "handle_response routed_env 7 unavailable_response 0
     = (Some (ErrorString ''server does not respond 200 OK: 503 Service Unavailable''), 0, [])"
  by (simp add: handle_response_def unavailable_response_def)

lemma header_requestBody: "requestBody header_env ''ping'' None = Inr (7, ping_body)"
  by (simp add: header_env_def requestBody_Do stub_requestBody)

lemma header_NewRequest_error: "NewRequest_error header_env () ''https://x/rpc'' = None"
  by (simp add: header_env_def stub_env_def)

lemma header_handle_ok:
  "handle_response header_env 7 ok_response 0 = (None, 42, [Ev_Decode, Ev_Unmarshal ''42''])"
  by (simp add: header_env_def handle_response_Do handle_response_def stub_Decode
      ok_response_def result_envelope_def)
    (simp add: stub_env_def stub_Unmarshal_def)

lemma header_handle_bad:
  "handle_response header_env 7 bad_request_response 0
     = (Some (ErrorString ''server does not respond 200 OK: 400 Bad Request''), 0, [])"
  by (simp add: handle_response_def bad_request_response_def)

lemma custom_options_final:
  "apply_options custom_options \<lparr>opt_Header = None\<rparr>
     = \<lparr>opt_Header = Some [(''X-Custom-Header'', [''XXXX'']),
                           (''Content-Type'', [''application/json''])]\<rparr>"
  by (simp add: custom_options_def apply_opt_def WithHeader_def)

lemma header_custom_request:
  "\<lparr>Ctx = (), Method = ''POST'', URL = ''https://x/rpc'',
    Header = add_headers header_env
               [(CanonicalHeaderKey header_env ''Content-Type'', [''text/json''])]
               [(''X-Custom-Header'', [''XXXX'']), (''Content-Type'', [''application/json''])],
    Body = ping_body\<rparr> = custom_request"
  by (simp add: header_env_def stub_env_def custom_request_def Header_Add_def Header_Values_def)

lemma header_plain_request:
  "\<lparr>Ctx = (), Method = ''POST'', URL = ''https://x/rpc'',
    Header = add_headers header_env
               [(CanonicalHeaderKey header_env ''Content-Type'', [''text/json''])] [],
    Body = ping_body\<rparr> = ping_request"
  by (simp add: header_env_def stub_env_def ping_request_def)

lemma json_string_Version: "json_string ''2.0'' = ''2.0''"
  by (rule json_string_stub)

lemma json_string_bad_method: "json_string bad_method = [CHR 0xEF, CHR 0xBF, CHR 0xBD]"
  unfolding bad_method_def by code_simp

lemma ValidString_ping: "ValidString ''ping''"
  by code_simp

subsection \<open>The claims\<close>

text \<open>
  C9. The standard error codes are ParseError = -32700, InvalidRequest = -32600,
  MethodNotFound = -32601, InvalidParams = -32602 and InternalError = -32603.
\<close>

theorem ErrorCode_values:
  "ParseError = - 32700 \<and> InvalidRequest = - 32600 \<and> MethodNotFound = - 32601
   \<and> InvalidParams = - 32602 \<and> InternalError = - 32603"
  by (simp add: ParseError_def InvalidRequest_def MethodNotFound_def InvalidParams_def
      InternalError_def)

text \<open>
  C2. With an empty method name, whatever the client, the context, the URL, the
  params, the output value and the options are, Call returns the error
  "method is empty" at once: the output value is as it was and the trace is empty, so no
  HTTP request has been built or sent.
\<close>

theorem Call_empty_method:
  "Call env client ctx url [] params result opts
     = \<lparr>err = Some (errors_New ''method is empty''), out = result, trace = []\<rparr>"
  by (simp add: Call_def)

text \<open>
  C3. When the response has status 200 and its body decodes to an envelope whose error
  field is a structured error \<open>e\<close>, Call returns \<open>e\<close> itself, with its code, message and
  data; the caller's value is as it was, and the result payload is never handed to
  \<open>json.Unmarshal\<close>, whatever the identifier and the result of the envelope are.
\<close>

theorem Call_server_error:
  assumes "method \<noteq> []"
    and "requestBody env method params = Inr (id', body)"
    and "newRequest env ctx url body (apply_options opts \<lparr>opt_Header = None\<rparr>) = Inr req"
    and "Client_Do env (httpClient env client) req = Inr res"
    and "StatusCode res = 200"
    and "Decode_response env (res_Body res) = Inr rpcRes"
    and "Error rpcRes = Some e"
  shows "Call env client ctx url method params result opts
           = \<lparr>err = Some (RPCError e), out = result,
              trace = [Ev_NewRequest url, Ev_Do (httpClient env client) req, Ev_Decode,
                       Ev_Discard, Ev_Close]\<rparr>
         \<and> (\<forall>raw. Ev_Unmarshal raw
                \<notin> set (trace (Call env client ctx url method params result opts)))"
  using assms by (simp add: Call_def handle_response_def)

theorem Call_server_error_witness:
  "Error (error_envelope 7) = Some method_not_found
   \<and> Call (stub_env ok_response (error_envelope 7)) \<lparr>HTTPClient = None\<rparr> ()
        ''https://x/rpc'' ''ping'' None 0 []
      = \<lparr>err = Some (RPCError method_not_found), out = 0,
         trace = [Ev_NewRequest ''https://x/rpc'', Ev_Do 0 ping_request, Ev_Decode,
                  Ev_Discard, Ev_Close]\<rparr>"
proof -
  have ok: "StatusCode ok_response = 200"
    by (simp add: ok_response_def)
  have e: "Error (error_envelope 7) = Some method_not_found"
    by (simp add: error_envelope_def)
  show ?thesis
    using Call_server_error [OF ping_nonempty stub_requestBody stub_newRequest stub_Do ok
        stub_Decode e, where client = "\<lparr>HTTPClient = None\<rparr>" and result = 0]
    by (simp add: e stub_httpClient)
qed

text \<open>
  C4, as amended. When the response has status 200 and its body decodes to an envelope
  with a null error whose identifier differs from the identifier of the request, Call
  fails with the error "response ID is not matched to request"; the caller's value is
  as it was and the result payload is never handed to \<open>json.Unmarshal\<close>, also when the
  envelope carries a result.
\<close>

theorem Call_id_mismatch:
  assumes "method \<noteq> []"
    and "requestBody env method params = Inr (id', body)"
    and "newRequest env ctx url body (apply_options opts \<lparr>opt_Header = None\<rparr>) = Inr req"
    and "Client_Do env (httpClient env client) req = Inr res"
    and "StatusCode res = 200"
    and "Decode_response env (res_Body res) = Inr rpcRes"
    and "Error rpcRes = None"
    and "ID rpcRes \<noteq> id'"
  shows "Call env client ctx url method params result opts
           = \<lparr>err = Some (errors_New ''response ID is not matched to request''), out = result,
              trace = [Ev_NewRequest url, Ev_Do (httpClient env client) req, Ev_Decode,
                       Ev_Discard, Ev_Close]\<rparr>
         \<and> (\<forall>raw. Ev_Unmarshal raw
                \<notin> set (trace (Call env client ctx url method params result opts)))"
  using assms by (simp add: Call_def handle_response_def)

theorem Call_id_mismatch_witness:
  "Error (result_envelope ''42'' 8) = None \<and> ID (result_envelope ''42'' 8) \<noteq> 7
   \<and> Call (stub_env ok_response (result_envelope ''42'' 8)) \<lparr>HTTPClient = None\<rparr> ()
        ''https://x/rpc'' ''ping'' None 0 []
      = \<lparr>err = Some (errors_New ''response ID is not matched to request''), out = 0,
         trace = [Ev_NewRequest ''https://x/rpc'', Ev_Do 0 ping_request, Ev_Decode,
                  Ev_Discard, Ev_Close]\<rparr>"
proof -
  have ok: "StatusCode ok_response = 200"
    by (simp add: ok_response_def)
  have e: "Error (result_envelope ''42'' 8) = None"
    by (simp add: result_envelope_def)
  have i: "ID (result_envelope ''42'' 8) \<noteq> 7"
    by (simp add: result_envelope_def)
  show ?thesis
    using Call_id_mismatch [OF ping_nonempty stub_requestBody stub_newRequest stub_Do ok
        stub_Decode e i, where client = "\<lparr>HTTPClient = None\<rparr>" and result = 0]
    by (simp add: e i stub_httpClient)
qed

text \<open>
  C4 as it is stated fails: the envelope below has the identifier 8 where the request
  has 7, and it carries a structured error. Call returns that error, not the
  identifier mismatch.
\<close>

theorem Call_id_mismatch_counterexample:
  "ID (error_envelope 8) \<noteq> uuid_New (stub_env ok_response (error_envelope 8))
   \<and> err (Call (stub_env ok_response (error_envelope 8)) \<lparr>HTTPClient = None\<rparr> ()
        ''https://x/rpc'' ''ping'' None 0 [])
      = Some (RPCError method_not_found)
   \<and> RPCError method_not_found \<noteq> errors_New ''response ID is not matched to request''"
proof -
  have "uuid_New (stub_env ok_response (error_envelope 8)) = 7"
    by (simp add: stub_env_def)
  moreover have "ID (error_envelope 8) \<noteq> 7"
    by (simp add: error_envelope_def)
  moreover have "err (Call (stub_env ok_response (error_envelope 8)) \<lparr>HTTPClient = None\<rparr> ()
        ''https://x/rpc'' ''ping'' None 0 []) = Some (RPCError method_not_found)"
    by (simp add: stub_Call handle_response_def stub_Decode ok_response_def error_envelope_def)
  ultimately show ?thesis
    by (simp add: errors_New_def)
qed

text \<open>
  C10. When the envelope carries a structured error and an identifier that differs from
  the identifier of the request, Call returns the structured error and not the
  identifier mismatch: the error is looked at first.
\<close>

theorem Call_error_before_id:
  assumes "method \<noteq> []"
    and "requestBody env method params = Inr (id', body)"
    and "newRequest env ctx url body (apply_options opts \<lparr>opt_Header = None\<rparr>) = Inr req"
    and "Client_Do env (httpClient env client) req = Inr res"
    and "StatusCode res = 200"
    and "Decode_response env (res_Body res) = Inr rpcRes"
    and "Error rpcRes = Some e"
    and "ID rpcRes \<noteq> id'"
  shows "err (Call env client ctx url method params result opts) = Some (RPCError e)
         \<and> err (Call env client ctx url method params result opts)
             \<noteq> Some (errors_New ''response ID is not matched to request'')"
  using assms by (simp add: Call_def handle_response_def errors_New_def)

theorem Call_error_before_id_witness:
  "Error (error_envelope 9) = Some method_not_found \<and> ID (error_envelope 9) \<noteq> 7
   \<and> err (Call (stub_env ok_response (error_envelope 9)) \<lparr>HTTPClient = Some 3\<rparr> ()
          ''https://x/rpc'' ''ping'' None 0 [])
       = Some (RPCError method_not_found)"
proof -
  have ok: "StatusCode ok_response = 200"
    by (simp add: ok_response_def)
  have e: "Error (error_envelope 9) = Some method_not_found"
    by (simp add: error_envelope_def)
  have i: "ID (error_envelope 9) \<noteq> 7"
    by (simp add: error_envelope_def)
  show ?thesis
    using Call_error_before_id [OF ping_nonempty stub_requestBody stub_newRequest stub_Do ok
        stub_Decode e i, where client = "\<lparr>HTTPClient = Some 3\<rparr>" and result = 0]
    by (simp add: e i)
qed

text \<open>
  C5. When the transport returns a response whose status code is not 200 (201 and the
  other 2xx codes included), Call fails with the error
  "server does not respond 200 OK: " followed by the status text of the response, the
  caller's value is as it was, and the body is never handed to the decoder. The body is
  drained and then closed all the same, as it is for every response the transport
  returns, whatever its status.
\<close>

theorem Call_status_not_OK:
  assumes "method \<noteq> []"
    and "requestBody env method params = Inr (id', body)"
    and "newRequest env ctx url body (apply_options opts \<lparr>opt_Header = None\<rparr>) = Inr req"
    and "Client_Do env (httpClient env client) req = Inr res"
  shows "(StatusCode res \<noteq> 200 \<longrightarrow>
            Call env client ctx url method params result opts
              = \<lparr>err = Some (ErrorString (''server does not respond 200 OK: '' @ Status res)),
                 out = result,
                 trace = [Ev_NewRequest url, Ev_Do (httpClient env client) req,
                          Ev_Discard, Ev_Close]\<rparr>
            \<and> Ev_Decode \<notin> set (trace (Call env client ctx url method params result opts)))
         \<and> (\<exists>evs. trace (Call env client ctx url method params result opts)
                    = evs @ [Ev_Discard, Ev_Close])"
proof (intro conjI impI)
  assume "StatusCode res \<noteq> 200"
  with assms show c: "Call env client ctx url method params result opts
      = \<lparr>err = Some (ErrorString (''server does not respond 200 OK: '' @ Status res)),
         out = result,
         trace = [Ev_NewRequest url, Ev_Do (httpClient env client) req,
                  Ev_Discard, Ev_Close]\<rparr>"
    by (simp add: Call_def handle_response_def)
  show "Ev_Decode \<notin> set (trace (Call env client ctx url method params result opts))"
    by (simp add: c)
next
  from assms show "\<exists>evs. trace (Call env client ctx url method params result opts)
      = evs @ [Ev_Discard, Ev_Close]"
    by (rule Call_body_released)
qed

theorem Call_status_not_OK_witness:
  "StatusCode created_response = 201
   \<and> Call (stub_env created_response (result_envelope ''42'' 7)) \<lparr>HTTPClient = None\<rparr> ()
        ''https://x/rpc'' ''ping'' None 0 []
      = \<lparr>err = Some (ErrorString ''server does not respond 200 OK: 201 Created''), out = 0,
         trace = [Ev_NewRequest ''https://x/rpc'', Ev_Do 0 ping_request,
                  Ev_Discard, Ev_Close]\<rparr>"
proof -
  have st: "StatusCode created_response \<noteq> 200"
    by (simp add: created_response_def)
  show ?thesis
    using Call_status_not_OK [OF ping_nonempty
        stub_requestBody [of created_response "result_envelope ''42'' 7"]
        stub_newRequest stub_Do, where client = "\<lparr>HTTPClient = None\<rparr>" and result = 0] st
    by (simp add: stub_httpClient created_response_def)
qed

text \<open>
  C1, as amended. When the response has status 200 and its body decodes to an envelope
  with a null error and the identifier of the request, Call hands the result payload
  and the caller's value to \<open>json.Unmarshal\<close>: the caller's value is what that
  deserialization leaves, and Call returns no error when the deserialization reports
  none; when it reports an error, Call returns it wrapped as
  "failed to decode result JSON".
\<close>

theorem Call_result:
  assumes "method \<noteq> []"
    and "requestBody env method params = Inr (id', body)"
    and "newRequest env ctx url body (apply_options opts \<lparr>opt_Header = None\<rparr>) = Inr req"
    and "Client_Do env (httpClient env client) req = Inr res"
    and "StatusCode res = 200"
    and "Decode_response env (res_Body res) = Inr rpcRes"
    and "Error rpcRes = None"
    and "ID rpcRes = id'"
  shows "out (Call env client ctx url method params result opts)
           = snd (json_Unmarshal env (Result rpcRes) result)
         \<and> err (Call env client ctx url method params result opts)
           = (case fst (json_Unmarshal env (Result rpcRes) result) of
                None \<Rightarrow> None
              | Some c \<Rightarrow> Some (WrapError ''failed to decode result JSON'' c))"
  using assms by (simp add: Call_def handle_response_def split: prod.splits option.splits)

theorem Call_result_witness:
  "Error (result_envelope ''42'' 7) = None \<and> ID (result_envelope ''42'' 7) = 7
   \<and> out (Call (stub_env ok_response (result_envelope ''42'' 7)) \<lparr>HTTPClient = None\<rparr> ()
          ''https://x/rpc'' ''ping'' None 0 []) = 42
   \<and> err (Call (stub_env ok_response (result_envelope ''42'' 7)) \<lparr>HTTPClient = None\<rparr> ()
          ''https://x/rpc'' ''ping'' None 0 []) = None"
proof -
  have ok: "StatusCode ok_response = 200"
    by (simp add: ok_response_def)
  have e: "Error (result_envelope ''42'' 7) = None"
    by (simp add: result_envelope_def)
  have i: "ID (result_envelope ''42'' 7) = 7"
    by (simp add: result_envelope_def)
  have u: "json_Unmarshal (stub_env ok_response (result_envelope ''42'' 7))
             (Result (result_envelope ''42'' 7)) 0 = (None, 42)"
    by (simp add: stub_env_def result_envelope_def stub_Unmarshal_def)
  show ?thesis
    using Call_result [OF ping_nonempty stub_requestBody stub_newRequest stub_Do ok
        stub_Decode e i, where client = "\<lparr>HTTPClient = None\<rparr>" and result = 0]
    by (simp add: e i u)
qed

text \<open>
  C1 as it is stated fails: the response below has status 200, a null error, the
  identifier of the request and the result payload \<open>true\<close>, which does not
  deserialize into the caller's \<open>int\<close>. Call returns an error.
\<close>

theorem Call_result_counterexample:
  "StatusCode ok_response = 200
   \<and> Error (result_envelope ''true'' 7) = None
   \<and> ID (result_envelope ''true'' 7) = uuid_New (stub_env ok_response (result_envelope ''true'' 7))
   \<and> Result (result_envelope ''true'' 7) = ''true''
   \<and> err (Call (stub_env ok_response (result_envelope ''true'' 7)) \<lparr>HTTPClient = None\<rparr> ()
          ''https://x/rpc'' ''ping'' None 0 [])
       = Some (WrapError ''failed to decode result JSON''
                 ''json: cannot unmarshal into Go value of type int'')"
proof -
  have "uuid_New (stub_env ok_response (result_envelope ''true'' 7)) = 7"
    by (simp add: stub_env_def)
  moreover have "json_Unmarshal (stub_env ok_response (result_envelope ''true'' 7)) ''true'' 0
      = (Some ''json: cannot unmarshal into Go value of type int'', 0)"
    by (simp add: stub_env_def stub_Unmarshal_def)
  ultimately show ?thesis
    by (simp add: stub_Call handle_response_def stub_Decode ok_response_def result_envelope_def)
qed

text \<open>
  C6. The transport of a call is read off the client and nothing else: the default
  client of the process when the client's transport field is nil, the client's own
  transport otherwise. Once the envelope is serialized and the request built, the
  outcome of the call is what that transport answers to the request, so it is the
  transport that does the round trip. No other transport has a say: whatever the
  other clients would answer, the default one included when the client has its own,
  the call ends the same. The one request logged is logged with that transport.
\<close>

theorem Call_transport:
  "httpClient env client = (case HTTPClient client of None \<Rightarrow> DefaultClient env | Some t \<Rightarrow> t)
   \<and> (\<forall>id' body req.
         method \<noteq> [] \<and> requestBody env method params = Inr (id', body)
         \<and> newRequest env ctx url body (apply_options opts \<lparr>opt_Header = None\<rparr>) = Inr req
         \<longrightarrow>
         Call env client ctx url method params result opts
           = (case Client_Do env (httpClient env client) req of
                Inl c \<Rightarrow>
                  \<lparr>err = Some (WrapError ''failed to post request'' c), out = result,
                   trace = [Ev_NewRequest url, Ev_Do (httpClient env client) req]\<rparr>
              | Inr res \<Rightarrow>
                  (case handle_response env id' res result of
                     (e, result', evs) \<Rightarrow>
                       \<lparr>err = e, out = result',
                        trace = [Ev_NewRequest url, Ev_Do (httpClient env client) req]
                                @ evs @ [Ev_Discard, Ev_Close]\<rparr>)))
   \<and> (\<forall>f. (\<forall>req. f (httpClient env client) req = Client_Do env (httpClient env client) req)
         \<longrightarrow>
         Call (env\<lparr>Client_Do := f\<rparr>) client ctx url method params result opts
           = Call env client ctx url method params result opts)
   \<and> (\<forall>c req. Ev_Do c req \<in> set (trace (Call env client ctx url method params result opts))
         \<longrightarrow> c = httpClient env client)"
proof (intro conjI allI impI)
  show "httpClient env client
          = (case HTTPClient client of None \<Rightarrow> DefaultClient env | Some t \<Rightarrow> t)"
    by (simp add: httpClient_def)
next
  fix id' body req
  assume "method \<noteq> [] \<and> requestBody env method params = Inr (id', body)
    \<and> newRequest env ctx url body (apply_options opts \<lparr>opt_Header = None\<rparr>) = Inr req"
  then show "Call env client ctx url method params result opts
      = (case Client_Do env (httpClient env client) req of
           Inl c \<Rightarrow>
             \<lparr>err = Some (WrapError ''failed to post request'' c), out = result,
              trace = [Ev_NewRequest url, Ev_Do (httpClient env client) req]\<rparr>
         | Inr res \<Rightarrow>
             (case handle_response env id' res result of
                (e, result', evs) \<Rightarrow>
                  \<lparr>err = e, out = result',
                   trace = [Ev_NewRequest url, Ev_Do (httpClient env client) req]
                           @ evs @ [Ev_Discard, Ev_Close]\<rparr>))"
    by (simp add: Call_round_trip)
next
  fix f
  assume "\<forall>req. f (httpClient env client) req = Client_Do env (httpClient env client) req"
  then show "Call (env\<lparr>Client_Do := f\<rparr>) client ctx url method params result opts
      = Call env client ctx url method params result opts"
    by (simp add: Call_one_question)
next
  fix c req
  assume "Ev_Do c req \<in> set (trace (Call env client ctx url method params result opts))"
  then show "c = httpClient env client"
    by (simp add: Call_Do_request)
qed

theorem Call_transport_witness:
  "Client_Do routed_env 3 ping_request = Inr unavailable_response
   \<and> Client_Do routed_env (DefaultClient routed_env) ping_request = Inr ok_response
   \<and> Call routed_env \<lparr>HTTPClient = Some 3\<rparr> () ''https://x/rpc'' ''ping'' None 0 []
       = \<lparr>err = Some (ErrorString ''server does not respond 200 OK: 503 Service Unavailable''),
          out = 0,
          trace = [Ev_NewRequest ''https://x/rpc'', Ev_Do 3 ping_request, Ev_Discard, Ev_Close]\<rparr>
   \<and> Call routed_env \<lparr>HTTPClient = None\<rparr> () ''https://x/rpc'' ''ping'' None 0 []
       = \<lparr>err = None, out = 42,
          trace = [Ev_NewRequest ''https://x/rpc'', Ev_Do 0 ping_request, Ev_Decode,
                   Ev_Unmarshal ''42'', Ev_Discard, Ev_Close]\<rparr>"
proof -
  have d: "DefaultClient routed_env = 0"
    by (simp add: routed_env_def stub_env_def)
  have do3: "Client_Do routed_env 3 ping_request = Inr unavailable_response"
    and do0: "Client_Do routed_env 0 ping_request = Inr ok_response"
    by (simp_all add: routed_env_def routed_Do_def)
  have h3: "httpClient routed_env \<lparr>HTTPClient = Some 3\<rparr> = 3"
    using Call_transport [where env = routed_env and client = "\<lparr>HTTPClient = Some 3\<rparr>"]
    by simp
  have h0: "httpClient routed_env \<lparr>HTTPClient = None\<rparr> = 0"
    using Call_transport [where env = routed_env and client = "\<lparr>HTTPClient = None\<rparr>"]
    by (simp add: d)
  have c3: "Call routed_env \<lparr>HTTPClient = Some 3\<rparr> () ''https://x/rpc'' ''ping'' None 0 []
      = \<lparr>err = Some (ErrorString ''server does not respond 200 OK: 503 Service Unavailable''),
         out = 0,
         trace = [Ev_NewRequest ''https://x/rpc'', Ev_Do 3 ping_request, Ev_Discard, Ev_Close]\<rparr>"
    using Call_transport [where env = routed_env and client = "\<lparr>HTTPClient = Some 3\<rparr>"
        and result = 0, THEN conjunct2, THEN conjunct1, rule_format,
        OF conjI [OF ping_nonempty conjI [OF routed_requestBody routed_newRequest]]]
    by (simp add: h3 do3 routed_handle_unavailable)
  have c0: "Call routed_env \<lparr>HTTPClient = None\<rparr> () ''https://x/rpc'' ''ping'' None 0 []
      = \<lparr>err = None, out = 42,
         trace = [Ev_NewRequest ''https://x/rpc'', Ev_Do 0 ping_request, Ev_Decode,
                  Ev_Unmarshal ''42'', Ev_Discard, Ev_Close]\<rparr>"
    using Call_transport [where env = routed_env and client = "\<lparr>HTTPClient = None\<rparr>"
        and result = 0, THEN conjunct2, THEN conjunct1, rule_format,
        OF conjI [OF ping_nonempty conjI [OF routed_requestBody routed_newRequest]]]
    by (simp add: h0 do0 routed_handle_ok)
  from do3 do0 c3 c0 show ?thesis by (simp add: d)
qed

text \<open>
  C7. Options are applied one after the other, in the order of the call, to options
  whose header set is nil; each WithHeader puts its header set in the place of the one
  before, so the header set of the last one is the header set of the call. The request
  that Call hands to the transport is a POST to the URL with the envelope as its body
  and with this header: \<open>Content-Type: text/json\<close> and, added after it, every value of
  that header set under its canonical key. The outcome of the call is what the
  transport answers to this very request, and to no other. \<open>text/json\<close> stays the first
  value of \<open>Content-Type\<close> also when the header set names \<open>Content-Type\<close> itself.
\<close>

theorem Call_options:
  "apply_options (xs @ ys) callOpts = apply_options ys (apply_options xs callOpts)
   \<and> opt_Header (apply_options (map WithHeader hs) \<lparr>opt_Header = None\<rparr>)
       = (if hs = [] then None else last hs)
   \<and> (\<forall>id' body req.
         method \<noteq> [] \<and> requestBody env method params = Inr (id', body)
         \<and> NewRequest_error env ctx url = None
         \<and> req = \<lparr>Ctx = ctx, Method = ''POST'', URL = url,
                   Header = add_headers env
                              [(CanonicalHeaderKey env ''Content-Type'', [''text/json''])]
                              (case opt_Header (apply_options opts \<lparr>opt_Header = None\<rparr>) of
                                 None \<Rightarrow> [] | Some hdr \<Rightarrow> hdr),
                   Body = body\<rparr>
         \<longrightarrow>
         Call env client ctx url method params result opts
           = (case Client_Do env (httpClient env client) req of
                Inl c \<Rightarrow>
                  \<lparr>err = Some (WrapError ''failed to post request'' c), out = result,
                   trace = [Ev_NewRequest url, Ev_Do (httpClient env client) req]\<rparr>
              | Inr res \<Rightarrow>
                  (case handle_response env id' res result of
                     (e, result', evs) \<Rightarrow>
                       \<lparr>err = e, out = result',
                        trace = [Ev_NewRequest url, Ev_Do (httpClient env client) req]
                                @ evs @ [Ev_Discard, Ev_Close]\<rparr>))
         \<and> (\<forall>f. f (httpClient env client) req = Client_Do env (httpClient env client) req
                \<longrightarrow>
                Call (env\<lparr>Client_Do := f\<rparr>) client ctx url method params result opts
                  = Call env client ctx url method params result opts)
         \<and> (\<exists>more. Header_Values (Header req) (CanonicalHeaderKey env ''Content-Type'')
                       = ''text/json'' # more)
         \<and> (\<forall>hdr. opt_Header (apply_options opts \<lparr>opt_Header = None\<rparr>) = Some hdr \<longrightarrow>
                (\<forall>(key, vs) \<in> set hdr. \<forall>v \<in> set vs.
                   v \<in> set (Header_Values (Header req) (CanonicalHeaderKey env key)))))"
proof (intro conjI allI impI)
  show "apply_options (xs @ ys) callOpts = apply_options ys (apply_options xs callOpts)"
    by (rule apply_options_append)
  show "opt_Header (apply_options (map WithHeader hs) \<lparr>opt_Header = None\<rparr>)
          = (if hs = [] then None else last hs)"
    by (simp add: apply_options_WithHeader)
next
  fix id' body req
  let ?final = "apply_options opts \<lparr>opt_Header = None\<rparr>"
  let ?base = "[(CanonicalHeaderKey env ''Content-Type'', [''text/json''])]"
  assume a: "method \<noteq> [] \<and> requestBody env method params = Inr (id', body)
    \<and> NewRequest_error env ctx url = None
    \<and> req = \<lparr>Ctx = ctx, Method = ''POST'', URL = url,
              Header = add_headers env ?base
                         (case opt_Header ?final of None \<Rightarrow> [] | Some hdr \<Rightarrow> hdr),
              Body = body\<rparr>"
  then have m: "method \<noteq> []" and rb: "requestBody env method params = Inr (id', body)"
    and ne: "NewRequest_error env ctx url = None"
    by simp_all
  from a ne have nr: "newRequest env ctx url body ?final = Inr req"
    by (simp add: newRequest_built)
  from a have h: "Header req
      = add_headers env ?base (case opt_Header ?final of None \<Rightarrow> [] | Some hdr \<Rightarrow> hdr)"
    by simp
  from m rb nr show "Call env client ctx url method params result opts
      = (case Client_Do env (httpClient env client) req of
           Inl c \<Rightarrow>
             \<lparr>err = Some (WrapError ''failed to post request'' c), out = result,
              trace = [Ev_NewRequest url, Ev_Do (httpClient env client) req]\<rparr>
         | Inr res \<Rightarrow>
             (case handle_response env id' res result of
                (e, result', evs) \<Rightarrow>
                  \<lparr>err = e, out = result',
                   trace = [Ev_NewRequest url, Ev_Do (httpClient env client) req]
                           @ evs @ [Ev_Discard, Ev_Close]\<rparr>))"
    by (rule Call_round_trip)
  have "Header_Values ?base (CanonicalHeaderKey env ''Content-Type'') = [''text/json'']"
    by (simp add: Header_Values_def)
  with add_headers_extends [of env ?base _ "CanonicalHeaderKey env ''Content-Type''"]
  show "\<exists>more. Header_Values (Header req) (CanonicalHeaderKey env ''Content-Type'')
                 = ''text/json'' # more"
    by (simp add: h)
  {
    fix f
    assume f: "f (httpClient env client) req = Client_Do env (httpClient env client) req"
    show "Call (env\<lparr>Client_Do := f\<rparr>) client ctx url method params result opts
        = Call env client ctx url method params result opts"
    proof (rule Call_one_question)
      fix i b r
      assume "requestBody env method params = Inr (i, b)"
        and r: "newRequest env ctx url b ?final = Inr r"
      with rb have "b = body" by simp
      with r nr have "r = req" by simp
      with f show "f (httpClient env client) r = Client_Do env (httpClient env client) r"
        by simp
    qed
  }
  {
    fix hdr
    assume "opt_Header ?final = Some hdr"
    then have "Header req = add_headers env ?base hdr"
      by (simp add: h)
    then show "\<forall>(key, vs) \<in> set hdr. \<forall>v \<in> set vs.
                 v \<in> set (Header_Values (Header req) (CanonicalHeaderKey env key))"
      by (auto intro: add_headers_contains)
  }
qed

theorem Call_options_witness:
  "opt_Header (apply_options custom_options \<lparr>opt_Header = None\<rparr>)
     = Some [(''X-Custom-Header'', [''XXXX'']), (''Content-Type'', [''application/json''])]
   \<and> Header_Values (Header custom_request) ''Content-Type'' = [''text/json'', ''application/json'']
   \<and> Header_Values (Header custom_request) ''X-Custom-Header'' = [''XXXX'']
   \<and> Header_Values (Header custom_request) ''X-Early'' = []
   \<and> Client_Do header_env 0 custom_request = Inr ok_response
   \<and> Client_Do header_env 0 ping_request = Inr bad_request_response
   \<and> Call header_env \<lparr>HTTPClient = None\<rparr> () ''https://x/rpc'' ''ping'' None 0 custom_options
       = \<lparr>err = None, out = 42,
          trace = [Ev_NewRequest ''https://x/rpc'', Ev_Do 0 custom_request, Ev_Decode,
                   Ev_Unmarshal ''42'', Ev_Discard, Ev_Close]\<rparr>
   \<and> Call header_env \<lparr>HTTPClient = None\<rparr> () ''https://x/rpc'' ''ping'' None 0 []
       = \<lparr>err = Some (ErrorString ''server does not respond 200 OK: 400 Bad Request''), out = 0,
          trace = [Ev_NewRequest ''https://x/rpc'', Ev_Do 0 ping_request, Ev_Discard, Ev_Close]\<rparr>"
proof -
  have hc: "httpClient header_env \<lparr>HTTPClient = None\<rparr> = 0"
    by (simp add: httpClient_def header_env_def stub_env_def)
  have o: "opt_Header (apply_options custom_options \<lparr>opt_Header = None\<rparr>)
      = Some [(''X-Custom-Header'', [''XXXX'']), (''Content-Type'', [''application/json''])]"
    by (simp add: custom_options_final)
  have v: "Header_Values (Header custom_request) ''Content-Type''
             = [''text/json'', ''application/json'']"
    "Header_Values (Header custom_request) ''X-Custom-Header'' = [''XXXX'']"
    "Header_Values (Header custom_request) ''X-Early'' = []"
    by (simp_all add: custom_request_def Header_Values_def)
  have dc: "Client_Do header_env 0 custom_request = Inr ok_response"
    by (simp add: header_env_def header_Do_def)
  have dp: "Client_Do header_env 0 ping_request = Inr bad_request_response"
    by (simp add: header_env_def header_Do_def custom_request_def ping_request_def)
  have p1: "''ping'' \<noteq> [] \<and> requestBody header_env ''ping'' None = Inr (7, ping_body)
      \<and> NewRequest_error header_env () ''https://x/rpc'' = None
      \<and> custom_request
          = \<lparr>Ctx = (), Method = ''POST'', URL = ''https://x/rpc'',
             Header = add_headers header_env
                        [(CanonicalHeaderKey header_env ''Content-Type'', [''text/json''])]
                        (case opt_Header (apply_options custom_options \<lparr>opt_Header = None\<rparr>) of
                           None \<Rightarrow> [] | Some hdr \<Rightarrow> hdr),
             Body = ping_body\<rparr>"
    using header_custom_request
    by (simp add: header_requestBody header_NewRequest_error custom_options_final)
  have p2: "''ping'' \<noteq> [] \<and> requestBody header_env ''ping'' None = Inr (7, ping_body)
      \<and> NewRequest_error header_env () ''https://x/rpc'' = None
      \<and> ping_request
          = \<lparr>Ctx = (), Method = ''POST'', URL = ''https://x/rpc'',
             Header = add_headers header_env
                        [(CanonicalHeaderKey header_env ''Content-Type'', [''text/json''])]
                        (case opt_Header (apply_options [] \<lparr>opt_Header = None\<rparr>) of
                           None \<Rightarrow> [] | Some hdr \<Rightarrow> hdr),
             Body = ping_body\<rparr>"
    using header_plain_request
    by (simp add: header_requestBody header_NewRequest_error)
  have c1: "Call header_env \<lparr>HTTPClient = None\<rparr> () ''https://x/rpc'' ''ping'' None 0
              custom_options
      = \<lparr>err = None, out = 42,
         trace = [Ev_NewRequest ''https://x/rpc'', Ev_Do 0 custom_request, Ev_Decode,
                  Ev_Unmarshal ''42'', Ev_Discard, Ev_Close]\<rparr>"
    using Call_options [where env = header_env and client = "\<lparr>HTTPClient = None\<rparr>"
        and result = 0 and opts = custom_options,
        THEN conjunct2, THEN conjunct2, rule_format, THEN conjunct1, OF p1]
    by (simp add: hc dc header_handle_ok)
  have c2: "Call header_env \<lparr>HTTPClient = None\<rparr> () ''https://x/rpc'' ''ping'' None 0 []
      = \<lparr>err = Some (ErrorString ''server does not respond 200 OK: 400 Bad Request''), out = 0,
         trace = [Ev_NewRequest ''https://x/rpc'', Ev_Do 0 ping_request, Ev_Discard, Ev_Close]\<rparr>"
    using Call_options [where env = header_env and client = "\<lparr>HTTPClient = None\<rparr>"
        and result = 0 and opts = "[]",
        THEN conjunct2, THEN conjunct2, rule_format, THEN conjunct1, OF p2]
    by (simp add: hc dp header_handle_bad)
  from o v dc dp c1 c2 show ?thesis by simp
qed

text \<open>
  C8, as amended. For every method name, the envelope that requestBody serializes has
  the member \<open>jsonrpc\<close> with the string "2.0", the member \<open>method\<close> with the method name
  as \<open>json.Marshal\<close> writes a string, which is the method name itself when it is valid
  UTF-8, and the member \<open>id\<close> with the text of the identifier it has drawn and returns.
  With nil params the serialization succeeds and the envelope has no member \<open>params\<close>
  at all; with params that are not nil and marshal to a JSON value, the envelope has
  the member \<open>params\<close> with that value, \<open>{}\<close> for an empty object.
\<close>

theorem requestBody_envelope:
  "requestBody env method None
     = Inr (uuid_New env,
            JObject [(''jsonrpc'', JString ''2.0''),
                     (''method'', JString (json_string method)),
                     (''id'', JString (json_string (uuid_String env (uuid_New env))))])
   \<and> (\<forall>p j. json_Marshal env p = Inr j \<longrightarrow>
          requestBody env method (Some p)
            = Inr (uuid_New env,
                   JObject [(''jsonrpc'', JString ''2.0''),
                            (''method'', JString (json_string method)),
                            (''params'', j),
                            (''id'', JString (json_string (uuid_String env (uuid_New env))))]))
   \<and> (\<forall>id' body. requestBody env method params = Inr (id', body) \<longrightarrow>
          id' = uuid_New env
          \<and> member body ''jsonrpc'' = Some (JString ''2.0'')
          \<and> member body ''method'' = Some (JString (json_string method))
          \<and> (ValidString method \<longrightarrow> member body ''method'' = Some (JString method))
          \<and> member body ''id'' = Some (JString (json_string (uuid_String env id')))
          \<and> (ValidString (uuid_String env id') \<longrightarrow>
                member body ''id'' = Some (JString (uuid_String env id')))
          \<and> (params = None \<longrightarrow> member body ''params'' = None)
          \<and> (\<forall>p. params = Some p \<and> json_Marshal env p = Inr (JObject []) \<longrightarrow>
                 member body ''params'' = Some (JObject [])))"
  by (auto simp: requestBody_def Marshal_request_def Version_def Let_def json_string_Version
      json_string_valid split: option.splits sum.splits)

theorem requestBody_envelope_witness:
  "ValidString ''ping''
   \<and> requestBody (stub_env ok_response (result_envelope ''42'' 7)) ''ping'' None = Inr (7, ping_body)
   \<and> member ping_body ''method'' = Some (JString ''ping'')
   \<and> member ping_body ''params'' = None
   \<and> requestBody (stub_env ok_response (result_envelope ''42'' 7)) ''ping'' (Some (JObject []))
       = Inr (7, empty_params_body)
   \<and> member empty_params_body ''params'' = Some (JObject [])"
proof -
  let ?env = "stub_env ok_response (result_envelope ''42'' 7)"
  have u: "uuid_New ?env = 7"
    and s: "uuid_String ?env 7 = ''00000000-0000-0000-0000-000000000007''"
    and j: "json_Marshal ?env (JObject []) = Inr (JObject [])"
    by (simp_all add: stub_env_def)
  note t = requestBody_envelope [of ?env "''ping''" "Some (JObject [])"]
  from t have 1: "requestBody ?env ''ping'' None = Inr (7, ping_body)"
    by (simp add: u s ping_body_def json_string_stub)
  from t j have 2: "requestBody ?env ''ping'' (Some (JObject [])) = Inr (7, empty_params_body)"
    by (simp add: u s empty_params_body_def json_string_stub)
  from t 2 j have 3: "member empty_params_body ''params'' = Some (JObject [])"
    by blast
  note n = requestBody_envelope [of ?env "''ping''" None]
  from n 1 have 4: "member ping_body ''params'' = None"
    by blast
  from n 1 ValidString_ping have 5: "member ping_body ''method'' = Some (JString ''ping'')"
    by blast
  from 1 2 3 4 5 ValidString_ping show ?thesis by simp
qed

text \<open>
  C8 as it is stated fails: the method name below is not empty, and it is one byte
  that is no UTF-8. The envelope carries U+FFFD in its place, not the method name.
\<close>

theorem requestBody_envelope_counterexample:
  "bad_method \<noteq> []
   \<and> requestBody (stub_env ok_response (result_envelope ''42'' 7)) bad_method None
       = Inr (7, bad_method_body)
   \<and> member bad_method_body ''method'' = Some (JString [CHR 0xEF, CHR 0xBF, CHR 0xBD])
   \<and> member bad_method_body ''method'' \<noteq> Some (JString bad_method)"
proof -
  have "requestBody (stub_env ok_response (result_envelope ''42'' 7)) bad_method None
      = Inr (7, bad_method_body)"
    by (simp add: requestBody_def Marshal_request_def stub_env_def bad_method_body_def
        Version_def json_string_stub json_string_bad_method)
  moreover have "member bad_method_body ''method'' = Some (JString [CHR 0xEF, CHR 0xBF, CHR 0xBD])"
    by (simp add: bad_method_body_def)
  moreover have "bad_method \<noteq> []" and "[CHR 0xEF, CHR 0xBF, CHR 0xBD] \<noteq> bad_method"
    by (simp_all add: bad_method_def)
  ultimately show ?thesis by simp
qed

end
